theory Spec2Isabelle
  imports Complex_Main "HOL-Library.Multiset"
begin

section \<open>Student Skill Assistant backend: a model of backend/server.py\<close>

text \<open>
  The backend is a FastAPI application over a document store with two collections,
  \<open>students\<close> and \<open>test_results\<close>. Each route handler is modelled as a function of its
  arguments, the store and the clock; a handler that writes returns the store it
  leaves behind. An exception raised by the source is a value \<open>Inl e\<close>.
  Python floats are modelled by exact reals.
\<close>

subsection \<open>Exceptions, JSON values, object ids\<close>

datatype exn =
    HTTPException (status_code: nat) (detail: string) (headers: "(string \<times> string) list")
  | ValidationError
  | InvalidId

text \<open>
  \<open>HTTPException\<close> is what FastAPI turns into a response with that status, detail
  and headers. \<open>ValidationError\<close> is pydantic's error on constructing a model from bad
  data and \<open>InvalidId\<close> is bson's error on a malformed object id; neither is an
  \<open>HTTPException\<close>, so when a handler lets one escape the framework answers 500.
\<close>

datatype json = JStr string | JNum int | JArr "json list" | JObj "(string \<times> json) list"

type_synonym oid = string

text \<open>
  An \<open>ObjectId\<close> is represented by its canonical text, 24 lower-case hexadecimal
  digits. \<open>ObjectId s\<close> follows the documented contract of bson's constructor on a
  string: it accepts exactly the strings of 24 hexadecimal digits, in either case,
  and raises \<open>InvalidId\<close> otherwise. \<open>str_oid\<close> is Python's \<open>str(oid)\<close>.
\<close>

definition is_hex :: "char \<Rightarrow> bool" where
  "is_hex c = (c \<in> set ''0123456789abcdefABCDEF'')"

definition lower_hex :: "char \<Rightarrow> char" where
  "lower_hex c =
     (if c = CHR ''A'' then CHR ''a''
      else if c = CHR ''B'' then CHR ''b''
      else if c = CHR ''C'' then CHR ''c''
      else if c = CHR ''D'' then CHR ''d''
      else if c = CHR ''E'' then CHR ''e''
      else if c = CHR ''F'' then CHR ''f''
      else c)"

definition ObjectId :: "string \<Rightarrow> exn + oid" where
  "ObjectId s =
     (if length s = 24 \<and> list_all is_hex s then Inr (map lower_hex s) else Inl InvalidId)"

definition str_oid :: "oid \<Rightarrow> string" where
  "str_oid x = x"

subsection \<open>Documents of the store\<close>

type_synonym timestamp = int

text \<open>
  The source stamps documents with \<open>datetime.now(timezone.utc).isoformat()\<close>. Such
  strings, all in UTC, compare the way the instants they denote do, so a timestamp is
  modelled by the instant itself, an integer count of clock ticks.
\<close>

record Student =
  s_oid :: oid
  s_name :: string
  s_email :: string
  s_password_hash :: string
  s_branch :: string
  s_semester :: string
  s_created_at :: timestamp

record TestResult =
  r_student_id :: oid
  r_track :: string
  r_score :: int
  r_total :: int
  r_percentage :: real
  r_level :: string
  r_submitted_at :: timestamp

record db =
  students :: "Student list"
  test_results :: "TestResult list"

text \<open>
  \<open>find_one\<close> with an equality filter returns the first matching document of the
  collection, or \<open>None\<close>.
\<close>

definition get_student_by_email :: "db \<Rightarrow> string \<Rightarrow> Student option" where
  "get_student_by_email store email = find (\<lambda>s. s_email s = email) (students store)"

definition get_student_by_id :: "db \<Rightarrow> string \<Rightarrow> Student option" where
  "get_student_by_id store student_id =
     (case ObjectId student_id of
        Inl _ \<Rightarrow> None
      | Inr oid \<Rightarrow> find (\<lambda>s. s_oid s = oid) (students store))"

subsection \<open>Bearer tokens\<close>

record env =
  JWT_SECRET :: string
  JWT_ALGORITHM :: string
  EmailStr_ok :: "string \<Rightarrow> bool"

text \<open>
  \<open>JWT_SECRET\<close> and \<open>JWT_ALGORITHM\<close> come from the process environment.
  \<open>EmailStr_ok\<close> stands for pydantic's \<open>EmailStr\<close> validator, a library predicate
  on strings that is taken as a parameter.
\<close>

text \<open>
  A bearer token, as far as the backend can tell tokens apart: either the string is not
  a well-formed JWT, or it was signed with some key under some algorithm and carries an
  optional expiry and optional \<open>sub\<close> and \<open>email\<close> claims.
\<close>

datatype token =
    Malformed
  | JWT (jwt_key: string) (jwt_alg: string) (jwt_exp: "int option")
        (jwt_sub: "json option") (jwt_email: "json option")

datatype jwt_error = JWTError | ExpiredSignatureError | JWTClaimsError

record payload =
  p_sub :: "string option"
  p_email :: "json option"

text \<open>
  Modelled from the spec: \<open>jwt.decode\<close> of the JWT library (\<open>jose\<close>), which is not
  part of the repository. Following section 4.2 of the specification and the library's documented checks,
  \<open>jwt_decode\<close> fails on a malformed token, on an algorithm that is not allowed, on a
  signature made with another key, on an expiry in the past and on a \<open>sub\<close> claim that
  is not a string; every failure is a subclass of \<open>JWTError\<close>. Otherwise it returns
  the claims.
\<close>

fun jwt_decode :: "token \<Rightarrow> string \<Rightarrow> string list \<Rightarrow> timestamp \<Rightarrow> jwt_error + payload" where
  "jwt_decode Malformed key algorithms now = Inl JWTError"
| "jwt_decode (JWT k a expiry sub email) key algorithms now =
     (if a \<in> set algorithms \<and> k = key then
        (if (case expiry of None \<Rightarrow> False | Some e \<Rightarrow> e < now) then Inl ExpiredSignatureError
         else (case sub of
                 None \<Rightarrow> Inr \<lparr>p_sub = None, p_email = email\<rparr>
               | Some (JStr s) \<Rightarrow> Inr \<lparr>p_sub = Some s, p_email = email\<rparr>
               | Some _ \<Rightarrow> Inl JWTClaimsError))
      else Inl JWTError)"

record TokenData =
  td_sub :: "string option"
  td_email :: "string option"

text \<open>
  The constructor of the pydantic model \<open>TokenData\<close>, whose \<open>email\<close> field has type
  \<open>Optional[EmailStr]\<close>: a value that is present must be a string that the validator
  accepts.
\<close>

definition TokenData :: "env \<Rightarrow> string option \<Rightarrow> json option \<Rightarrow> exn + TokenData" where
  "TokenData e sub email =
     (case email of
        None \<Rightarrow> Inr \<lparr>td_sub = sub, td_email = None\<rparr>
      | Some (JStr s) \<Rightarrow>
          (if EmailStr_ok e s then Inr \<lparr>td_sub = sub, td_email = Some s\<rparr>
           else Inl ValidationError)
      | Some _ \<Rightarrow> Inl ValidationError)"

definition credentials_exception :: exn where
  "credentials_exception =
     HTTPException 401 ''Could not validate credentials'' [(''WWW-Authenticate'', ''Bearer'')]"

record CurrentStudent =
  cs_doc :: Student
  cs_id :: string

text \<open>
  \<open>get_current_student\<close> returns the stored document with one more key, \<open>id\<close>, the text
  of its \<open>_id\<close>. The \<open>except JWTError\<close> clause catches the decoding errors only: the
  \<open>credentials_exception\<close> raised inside the \<open>try\<close> and a \<open>ValidationError\<close> of
  \<open>TokenData\<close> both leave the function as they are.
\<close>

definition get_current_student :: "env \<Rightarrow> db \<Rightarrow> timestamp \<Rightarrow> token \<Rightarrow> exn + CurrentStudent" where
  "get_current_student e store now tok =
     (case jwt_decode tok (JWT_SECRET e) [JWT_ALGORITHM e] now of
        Inl _ \<Rightarrow> Inl credentials_exception
      | Inr pl \<Rightarrow>
          (case p_sub pl of
             None \<Rightarrow> Inl credentials_exception
           | Some subject \<Rightarrow>
               (case p_email pl of
                  None \<Rightarrow> Inl credentials_exception
                | Some email \<Rightarrow>
                    (case TokenData e (Some subject) (Some email) of
                       Inl err \<Rightarrow> Inl err
                     | Inr token_data \<Rightarrow>
                         (case td_sub token_data of
                            None \<Rightarrow> Inl credentials_exception
                          | Some sub \<Rightarrow>
                              (case get_student_by_id store sub of
                                 None \<Rightarrow> Inl credentials_exception
                               | Some student \<Rightarrow>
                                   Inr \<lparr>cs_doc = student,
                                        cs_id = str_oid (s_oid student)\<rparr>))))))"

subsection \<open>Request and response models\<close>

record StudentRegister =
  reg_name :: string
  reg_email :: string
  reg_password :: string
  reg_branch :: string
  reg_semester :: string

record StudentPublic =
  sp_id :: string
  sp_name :: string
  sp_email :: string
  sp_branch :: string
  sp_semester :: string

record QuestionPublic =
  qp_id :: string
  qp_question :: string
  qp_options :: "string list"

record AnswerSubmission =
  questionId :: string
  optionIndex :: int

record TestSubmitRequest =
  answers :: "AnswerSubmission list"

record TestResultResponse =
  tr_track :: string
  tr_score :: int
  tr_total :: int
  tr_percentage :: real
  tr_level :: string
  tr_message :: string

record TrackLevel =
  tl_level :: "string option"
  tl_percentage :: "real option"

record LevelsResponse =
  lr_webdev :: "TrackLevel option"
  lr_ml :: "TrackLevel option"

record Course =
  c_id :: string
  c_title :: string
  c_platform :: string
  c_url :: string
  c_track :: string
  c_difficulty :: string

record RecommendationsResponse =
  rec_webdev :: "Course list"
  rec_ml :: "Course list"

subsection \<open>Static data\<close>

record Question =
  q_id :: string
  q_question :: string
  q_options :: "string list"
  q_correctIndex :: int

definition WEBDEV_QUESTIONS_FULL :: "Question list" where
  "WEBDEV_QUESTIONS_FULL =
    [\<lparr>q_id = ''w1'',
      q_question = ''What does HTML stand for?'',
      q_options =
        [''Hyper Trainer Marking Language'',
         ''Hyper Text Markup Language'',
         ''Hyper Text Marketing Language'',
         ''Hyperlinks Text Marking Language''],
      q_correctIndex = 1\<rparr>,
     \<lparr>q_id = ''w2'',
      q_question = ''Which HTML tag is used to include JavaScript code?'',
      q_options =
        [''<javascript>'',
         ''<script>'',
         ''<js>'',
         ''<code>''],
      q_correctIndex = 1\<rparr>,
     \<lparr>q_id = ''w3'',
      q_question = ''Which CSS property controls text size?'',
      q_options =
        [''font-style'',
         ''text-size'',
         ''font-size'',
         ''text-style''],
      q_correctIndex = 2\<rparr>,
     \<lparr>q_id = ''w4'',
      q_question = ''Which HTTP method is typically used to submit form data?'',
      q_options =
        [''GET'',
         ''POST'',
         ''PUT'',
         ''DELETE''],
      q_correctIndex = 1\<rparr>,
     \<lparr>q_id = ''w5'',
      q_question = ''Which HTML element is used for the largest heading?'',
      q_options =
        [''<head>'',
         ''<h6>'',
         ''<h1>'',
         ''<title>''],
      q_correctIndex = 2\<rparr>,
     \<lparr>q_id = ''w6'',
      q_question = ''Which CSS layout module is best for creating one-dimensional layouts (rows or columns)?'',
      q_options =
        [''Grid'',
         ''Flexbox'',
         ''Float'',
         ''Positioning''],
      q_correctIndex = 1\<rparr>,
     \<lparr>q_id = ''w7'',
      q_question = ''In JavaScript, which keyword declares a block-scoped variable that can change?'',
      q_options =
        [''var'',
         ''let'',
         ''const'',
         ''static''],
      q_correctIndex = 1\<rparr>,
     \<lparr>q_id = ''w8'',
      q_question = ''What does CSS stand for?'',
      q_options =
        [''Computer Style Sheets'',
         ''Cascading Style Sheets'',
         ''Creative Style System'',
         ''Colorful Style Syntax''],
      q_correctIndex = 1\<rparr>,
     \<lparr>q_id = ''w9'',
      q_question = ''Which of these is a valid HTTP status code for 'Not Found'?'',
      q_options =
        [''200'',
         ''301'',
         ''404'',
         ''500''],
      q_correctIndex = 2\<rparr>,
     \<lparr>q_id = ''w10'',
      q_question = ''Which tag creates a hyperlink in HTML?'',
      q_options =
        [''<a>'',
         ''<link>'',
         ''<href>'',
         ''<url>''],
      q_correctIndex = 0\<rparr>]"

definition ML_QUESTIONS_FULL :: "Question list" where
  "ML_QUESTIONS_FULL =
    [\<lparr>q_id = ''m1'',
      q_question = ''What is Machine Learning?'',
      q_options =
        [''Programming computers with explicit rules only'',
         ''A field where computers learn patterns from data'',
         ''Designing computer hardware'',
         ''Building websites with HTML and CSS''],
      q_correctIndex = 1\<rparr>,
     \<lparr>q_id = ''m2'',
      q_question = ''Which of the following is a supervised learning task?'',
      q_options =
        [''Clustering customers by behavior'',
         ''Classifying emails as spam or not spam'',
         ''Finding topics in documents without labels'',
         ''Dimensionality reduction''],
      q_correctIndex = 1\<rparr>,
     \<lparr>q_id = ''m3'',
      q_question = ''In linear regression, what do we typically minimize during training?'',
      q_options =
        [''Number of parameters'',
         ''Sum of squared errors between predictions and targets'',
         ''Number of data points'',
         ''Model accuracy''],
      q_correctIndex = 1\<rparr>,
     \<lparr>q_id = ''m4'',
      q_question = ''Which of these is an example of a classification algorithm?'',
      q_options =
        [''K-Means'',
         ''Principal Component Analysis'',
         ''Logistic Regression'',
         ''K-Nearest Neighbors Regressor''],
      q_correctIndex = 2\<rparr>,
     \<lparr>q_id = ''m5'',
      q_question = ''What does 'overfitting' mean in ML?'',
      q_options =
        [''Model is too simple and underperforms on both train and test'',
         ''Model performs well on train data but poorly on unseen test data'',
         ''Model has too few parameters'',
         ''Model cannot be trained at all''],
      q_correctIndex = 1\<rparr>,
     \<lparr>q_id = ''m6'',
      q_question = ''Which of these is commonly used for dimensionality reduction?'',
      q_options =
        [''PCA'',
         ''SVM'',
         ''Random Forest'',
         ''Naive Bayes''],
      q_correctIndex = 0\<rparr>,
     \<lparr>q_id = ''m7'',
      q_question = ''What is a 'feature' in a dataset?'',
      q_options =
        [''A row in the dataset'',
         ''A column representing an input variable'',
         ''The final prediction'',
         ''The loss function''],
      q_correctIndex = 1\<rparr>,
     \<lparr>q_id = ''m8'',
      q_question = ''Which library is widely used for building neural networks in Python?'',
      q_options =
        [''NumPy'',
         ''Pandas'',
         ''Matplotlib'',
         ''PyTorch''],
      q_correctIndex = 3\<rparr>,
     \<lparr>q_id = ''m9'',
      q_question = ''What is 'training data'?'',
      q_options =
        [''Data used to evaluate model performance'',
         ''Data used to tune hyperparameters'',
         ''Data used to learn model parameters'',
         ''Random noise added to inputs''],
      q_correctIndex = 2\<rparr>,
     \<lparr>q_id = ''m10'',
      q_question = ''In classification, which metric measures the proportion of correct predictions?'',
      q_options =
        [''Loss'',
         ''Accuracy'',
         ''Learning rate'',
         ''Epoch''],
      q_correctIndex = 1\<rparr>]"

definition COURSES :: "Course list" where
  "COURSES =
    [\<lparr>c_id = ''c-w-b-1'',
      c_title = ''HTML & CSS Crash Course'',
      c_platform = ''YouTube'',
      c_url = ''https://www.youtube.com/results?search_query=html+css+crash+course'',
      c_track = ''webdev'',
      c_difficulty = ''Beginner''\<rparr>,
     \<lparr>c_id = ''c-w-b-2'',
      c_title = ''Web Development for Beginners'',
      c_platform = ''freeCodeCamp'',
      c_url = ''https://www.freecodecamp.org/learn/'',
      c_track = ''webdev'',
      c_difficulty = ''Beginner''\<rparr>,
     \<lparr>c_id = ''c-w-i-1'',
      c_title = ''Modern JavaScript Tutorial'',
      c_platform = ''MDN / Docs'',
      c_url = ''https://developer.mozilla.org/en-US/docs/Web/JavaScript/Guide'',
      c_track = ''webdev'',
      c_difficulty = ''Intermediate''\<rparr>,
     \<lparr>c_id = ''c-w-i-2'',
      c_title = ''React for Beginners'',
      c_platform = ''Scrimba / YouTube'',
      c_url = ''https://www.youtube.com/results?search_query=react+js+for+beginners'',
      c_track = ''webdev'',
      c_difficulty = ''Intermediate''\<rparr>,
     \<lparr>c_id = ''c-w-a-1'',
      c_title = ''Full-Stack Web Development Projects'',
      c_platform = ''Udemy / Other'',
      c_url = ''https://www.udemy.com/topic/web-development/'',
      c_track = ''webdev'',
      c_difficulty = ''Advanced''\<rparr>,
     \<lparr>c_id = ''c-w-a-2'',
      c_title = ''Web Performance Optimization'',
      c_platform = ''Web.dev'',
      c_url = ''https://web.dev/fast/'',
      c_track = ''webdev'',
      c_difficulty = ''Advanced''\<rparr>,
     \<lparr>c_id = ''c-m-b-1'',
      c_title = ''Machine Learning for Beginners'',
      c_platform = ''YouTube'',
      c_url = ''https://www.youtube.com/results?search_query=machine+learning+for+beginners'',
      c_track = ''ml'',
      c_difficulty = ''Beginner''\<rparr>,
     \<lparr>c_id = ''c-m-b-2'',
      c_title = ''Intro to ML with Python'',
      c_platform = ''Kaggle / Courses'',
      c_url = ''https://www.kaggle.com/learn/intro-to-machine-learning'',
      c_track = ''ml'',
      c_difficulty = ''Beginner''\<rparr>,
     \<lparr>c_id = ''c-m-i-1'',
      c_title = ''Supervised Machine Learning'',
      c_platform = ''Coursera'',
      c_url = ''https://www.coursera.org/specializations/machine-learning-introduction'',
      c_track = ''ml'',
      c_difficulty = ''Intermediate''\<rparr>,
     \<lparr>c_id = ''c-m-i-2'',
      c_title = ''Hands-On ML with Scikit-Learn'',
      c_platform = ''Book / Online'',
      c_url = ''https://www.oreilly.com/library/view/hands-on-machine-learning/9781492032632/'',
      c_track = ''ml'',
      c_difficulty = ''Intermediate''\<rparr>,
     \<lparr>c_id = ''c-m-a-1'',
      c_title = ''Deep Learning Specialization'',
      c_platform = ''Coursera'',
      c_url = ''https://www.coursera.org/specializations/deep-learning'',
      c_track = ''ml'',
      c_difficulty = ''Advanced''\<rparr>,
     \<lparr>c_id = ''c-m-a-2'',
      c_title = ''Advanced ML on Google Cloud'',
      c_platform = ''Coursera'',
      c_url = ''https://www.coursera.org/specializations/advanced-machine-learning-tensorflow-gcp'',
      c_track = ''ml'',
      c_difficulty = ''Advanced''\<rparr>]"

subsection \<open>Utility functions\<close>

definition map_percentage_to_level :: "real \<Rightarrow> string" where
  "map_percentage_to_level p =
     (if p \<le> 40 then ''Beginner''
      else if p \<le> 75 then ''Intermediate''
      else ''Advanced'')"

text \<open>
  \<open>db.test_results.find({"student_id": student_id}).sort("submitted_at", -1)\<close>:
  the student's results, most recent first.
\<close>

definition find_results_sorted :: "db \<Rightarrow> oid \<Rightarrow> TestResult list" where
  "find_results_sorted store student_id =
     rev (sort_key r_submitted_at
            (filter (\<lambda>doc. r_student_id doc = student_id) (test_results store)))"

text \<open>The body of the \<open>async for\<close> loop: a track that already has an entry is skipped.\<close>

definition levels_step :: "TestResult \<Rightarrow> (string \<rightharpoonup> TrackLevel) \<Rightarrow> (string \<rightharpoonup> TrackLevel)" where
  "levels_step doc levels =
     (case levels (r_track doc) of
        Some _ \<Rightarrow> levels
      | None \<Rightarrow>
          levels(r_track doc \<mapsto>
            \<lparr>tl_level = Some (r_level doc), tl_percentage = Some (r_percentage doc)\<rparr>))"

definition get_latest_levels_for_student :: "db \<Rightarrow> oid \<Rightarrow> LevelsResponse" where
  "get_latest_levels_for_student store student_id =
     (let levels = fold levels_step (find_results_sorted store student_id) Map.empty
      in \<lparr>lr_webdev = levels ''webdev'', lr_ml = levels ''ml''\<rparr>)"

subsection \<open>Routes\<close>

text \<open>\<open>POST /auth/register\<close>. The new document's id and the password hash come from the
  store driver and from the password hasher; both are parameters.\<close>

definition register_student ::
  "(string \<Rightarrow> string) \<Rightarrow> oid \<Rightarrow> timestamp \<Rightarrow> StudentRegister \<Rightarrow> db \<Rightarrow> (exn + StudentPublic) \<times> db" where
  "register_student get_password_hash inserted_id now pl store =
     (case get_student_by_email store (reg_email pl) of
        Some existing \<Rightarrow> (Inl (HTTPException 400 ''Email already registered'' []), store)
      | None \<Rightarrow>
          (let hashed_password = get_password_hash (reg_password pl);
               doc = \<lparr>s_oid = inserted_id,
                      s_name = reg_name pl,
                      s_email = reg_email pl,
                      s_password_hash = hashed_password,
                      s_branch = reg_branch pl,
                      s_semester = reg_semester pl,
                      s_created_at = now\<rparr>
           in (Inr \<lparr>sp_id = str_oid inserted_id,
                     sp_name = reg_name pl,
                     sp_email = reg_email pl,
                     sp_branch = reg_branch pl,
                     sp_semester = reg_semester pl\<rparr>,
               store\<lparr>students := students store @ [doc]\<rparr>)))"

definition questions_for :: "string \<Rightarrow> Question list" where
  "questions_for track = (if track = ''webdev'' then WEBDEV_QUESTIONS_FULL else ML_QUESTIONS_FULL)"

definition QuestionPublic :: "Question \<Rightarrow> QuestionPublic" where
  "QuestionPublic q = \<lparr>qp_id = q_id q, qp_question = q_question q, qp_options = q_options q\<rparr>"

definition model_dump :: "QuestionPublic \<Rightarrow> json" where
  "model_dump qp =
     JObj [(''id'', JStr (qp_id qp)),
           (''question'', JStr (qp_question qp)),
           (''options'', JArr (map JStr (qp_options qp)))]"

text \<open>\<open>GET /tests/{track}\<close>. The current student is required and not used.\<close>

definition get_test_questions :: "string \<Rightarrow> CurrentStudent \<Rightarrow> exn + json" where
  "get_test_questions track cs =
     (if track \<in> {''webdev'', ''ml''} then
        (let questions_full = questions_for track;
             questions_public = map (\<lambda>q. model_dump (QuestionPublic q)) questions_full
         in Inr (JObj [(''track'', JStr track), (''questions'', JArr questions_public)]))
      else Inl (HTTPException 404 ''Unknown track'' []))"

text \<open>The dictionary comprehension \<open>{q["id"]: q for q in questions_full}\<close>.\<close>

definition question_map :: "Question list \<Rightarrow> (string \<rightharpoonup> Question)" where
  "question_map questions_full = fold (\<lambda>q m. m(q_id q \<mapsto> q)) questions_full Map.empty"

text \<open>The scoring loop over the submitted answers, with the running score.\<close>

fun score_loop :: "(string \<rightharpoonup> Question) \<Rightarrow> AnswerSubmission list \<Rightarrow> int \<Rightarrow> int" where
  "score_loop qm [] score = score"
| "score_loop qm (ans # rest) score =
     (case qm (questionId ans) of
        None \<Rightarrow> score_loop qm rest score
      | Some q \<Rightarrow>
          (if optionIndex ans = q_correctIndex q then score_loop qm rest (score + 1)
           else score_loop qm rest score))"

text \<open>Python's \<open>round(x, 2)\<close>, rounding a tie to the even neighbour.\<close>

definition round2 :: "real \<Rightarrow> real" where
  "round2 x =
     (let f = \<lfloor>x * 100\<rfloor>; d = x * 100 - of_int f
      in (if d < 1 / 2 then of_int f
          else if 1 / 2 < d then of_int (f + 1)
          else if even f then of_int f
          else of_int (f + 1)) / 100)"

definition level_message :: "string \<Rightarrow> string" where
  "level_message lv =
     (if lv = ''Beginner'' then
        ''You are at Beginner level. Focus on the basics and build strong foundations.''
      else if lv = ''Intermediate'' then
        ''Nice work! You are at Intermediate level. Keep practicing and build projects.''
      else
        ''Great job! You are at Advanced level. Explore deeper topics and real-world applications.'')"

text \<open>\<open>POST /tests/{track}\<close>.\<close>

definition submit_test ::
  "timestamp \<Rightarrow> string \<Rightarrow> TestSubmitRequest \<Rightarrow> CurrentStudent \<Rightarrow> db \<Rightarrow> (exn + TestResultResponse) \<times> db" where
  "submit_test now track pl current_student store =
     (if track \<in> {''webdev'', ''ml''} then
        (let questions_full = questions_for track;
             qm = question_map questions_full;
             total = int (length questions_full);
             score = score_loop qm (answers pl) 0;
             pct = (if 0 < total then real_of_int score / real_of_int total * 100 else 0);
             lv = map_percentage_to_level pct
         in (case ObjectId (cs_id current_student) of
               Inl err \<Rightarrow> (Inl err, store)
             | Inr sid \<Rightarrow>
                 (Inr \<lparr>tr_track = track,
                       tr_score = score,
                       tr_total = total,
                       tr_percentage = round2 pct,
                       tr_level = lv,
                       tr_message = level_message lv\<rparr>,
                  store\<lparr>test_results := test_results store @
                    [\<lparr>r_student_id = sid,
                      r_track = track,
                      r_score = score,
                      r_total = total,
                      r_percentage = pct,
                      r_level = lv,
                      r_submitted_at = now\<rparr>]\<rparr>)))
      else (Inl (HTTPException 404 ''Unknown track'' []), store))"

text \<open>\<open>GET /tests/levels\<close>.\<close>

definition get_levels :: "CurrentStudent \<Rightarrow> db \<Rightarrow> exn + LevelsResponse" where
  "get_levels current_student store =
     (case ObjectId (cs_id current_student) of
        Inl err \<Rightarrow> Inl err
      | Inr student_id \<Rightarrow> Inr (get_latest_levels_for_student store student_id))"

text \<open>\<open>GET /recommendations\<close> and its local function \<open>filter_courses\<close>. A missing level, a
  level record without a level and an empty level string all count as no level.\<close>

definition filter_courses :: "string \<Rightarrow> TrackLevel option \<Rightarrow> Course list" where
  "filter_courses track lv =
     (let target_difficulty =
            (case lv of
               None \<Rightarrow> ''Beginner''
             | Some t \<Rightarrow>
                 (case tl_level t of
                    None \<Rightarrow> ''Beginner''
                  | Some l \<Rightarrow> if l = [] then ''Beginner'' else l))
      in filter (\<lambda>course. c_track course = track \<and> c_difficulty course = target_difficulty)
           COURSES)"

definition get_recommendations :: "CurrentStudent \<Rightarrow> db \<Rightarrow> exn + RecommendationsResponse" where
  "get_recommendations current_student store =
     (case ObjectId (cs_id current_student) of
        Inl err \<Rightarrow> Inl err
      | Inr student_id \<Rightarrow>
          (let levels = get_latest_levels_for_student store student_id
           in Inr \<lparr>rec_webdev = filter_courses ''webdev'' (lr_webdev levels),
                   rec_ml = filter_courses ''ml'' (lr_ml levels)\<rparr>))"

subsection \<open>Routing\<close>

text \<open>
  The router holds the routes in the order of their decorators in the source and serves
  a request with the first route whose verb and path both match. A path is the list
  of its segments below the \<open>/api\<close> prefix; a path parameter such as \<open>{track}\<close> matches
  any one non-empty segment.
\<close>

datatype http_method = GET | POST

datatype segment = Lit string | Param string

datatype endpoint =
    Ep_root
  | Ep_create_status_check
  | Ep_get_status_checks
  | Ep_register_student
  | Ep_login_student
  | Ep_get_test_questions
  | Ep_submit_test
  | Ep_get_levels
  | Ep_get_recommendations
  | Ep_get_docs
  | Ep_chat_endpoint

definition routes :: "(http_method \<times> segment list \<times> endpoint) list" where
  "routes =
     [(GET, [], Ep_root),
      (POST, [Lit ''status''], Ep_create_status_check),
      (GET, [Lit ''status''], Ep_get_status_checks),
      (POST, [Lit ''auth'', Lit ''register''], Ep_register_student),
      (POST, [Lit ''auth'', Lit ''login''], Ep_login_student),
      (GET, [Lit ''tests'', Param ''track''], Ep_get_test_questions),
      (POST, [Lit ''tests'', Param ''track''], Ep_submit_test),
      (GET, [Lit ''tests'', Lit ''levels''], Ep_get_levels),
      (GET, [Lit ''recommendations''], Ep_get_recommendations),
      (GET, [Lit ''docs''], Ep_get_docs),
      (POST, [Lit ''chat''], Ep_chat_endpoint)]"

fun match_path :: "segment list \<Rightarrow> string list \<Rightarrow> (string \<times> string) list option" where
  "match_path [] [] = Some []"
| "match_path (Lit l # ps) (s # ss) = (if l = s then match_path ps ss else None)"
| "match_path (Param n # ps) (s # ss) =
     (if s = [] then None
      else (case match_path ps ss of None \<Rightarrow> None | Some ps' \<Rightarrow> Some ((n, s) # ps')))"
| "match_path _ _ = None"

fun dispatch_in ::
  "(http_method \<times> segment list \<times> endpoint) list \<Rightarrow> http_method \<Rightarrow> string list \<Rightarrow>
   (endpoint \<times> (string \<times> string) list) option" where
  "dispatch_in [] m path = None"
| "dispatch_in ((m', pat, ep) # rest) m path =
     (if m' = m then
        (case match_path pat path of
           Some params \<Rightarrow> Some (ep, params)
         | None \<Rightarrow> dispatch_in rest m path)
      else dispatch_in rest m path)"

definition dispatch :: "http_method \<Rightarrow> string list \<Rightarrow> (endpoint \<times> (string \<times> string) list) option" where
  "dispatch m path = dispatch_in routes m path"

text \<open>
  Serving a \<open>GET\<close> below \<open>/tests\<close>: the dependency \<open>get_current_student\<close> runs first, then
  the handler of the route that \<open>dispatch\<close> selected.
\<close>

datatype tests_response = Questions json | Levels LevelsResponse

definition serve_tests_get ::
  "env \<Rightarrow> db \<Rightarrow> timestamp \<Rightarrow> token \<Rightarrow> string \<Rightarrow> (exn + tests_response) option" where
  "serve_tests_get e store now tok segment =
     (case dispatch GET [''tests'', segment] of
        Some (Ep_get_test_questions, params) \<Rightarrow>
          (case map_of params ''track'' of
             None \<Rightarrow> None
           | Some track \<Rightarrow>
               Some (case get_current_student e store now tok of
                       Inl err \<Rightarrow> Inl err
                     | Inr cs \<Rightarrow> map_sum id Questions (get_test_questions track cs)))
      | Some (Ep_get_levels, params) \<Rightarrow>
          Some (case get_current_student e store now tok of
                  Inl err \<Rightarrow> Inl err
                | Inr cs \<Rightarrow> map_sum id Levels (get_levels cs store))
      | _ \<Rightarrow> None)"

subsection \<open>Auxiliary notions for the statements\<close>

text \<open>All keys that occur anywhere in a JSON value.\<close>

fun json_keys :: "json \<Rightarrow> string list" where
  "json_keys (JStr s) = []"
| "json_keys (JNum n) = []"
| "json_keys (JArr vs) = concat (map json_keys vs)"
| "json_keys (JObj kvs) = concat (map (\<lambda>kv. fst kv # json_keys (snd kv)) kvs)"

text \<open>The number of correct matches of a list of answers against a question set, in the
  words of the specification: an answer counts when its question is in the set and the
  chosen option is that question's correct one.\<close>

definition correct_matches :: "Question list \<Rightarrow> AnswerSubmission list \<Rightarrow> nat" where
  "correct_matches qs as =
     length (filter (\<lambda>a. list_ex (\<lambda>q. q_id q = questionId a \<and> q_correctIndex q = optionIndex a) qs) as)"

text \<open>Whether the scoring loop counts an answer: its question is in the map and the
  chosen option is the correct one.\<close>

definition answer_correct :: "(string \<rightharpoonup> Question) \<Rightarrow> AnswerSubmission \<Rightarrow> bool" where
  "answer_correct qm a =
     (case qm (questionId a) of None \<Rightarrow> False | Some q \<Rightarrow> optionIndex a = q_correctIndex q)"


text \<open>The entry that the level aggregator builds from a result row.\<close>

definition track_level_of :: "TestResult \<Rightarrow> TrackLevel" where
  "track_level_of doc = \<lparr>tl_level = Some (r_level doc), tl_percentage = Some (r_percentage doc)\<rparr>"

text \<open>
  What the specification asks of the entry \<open>res\<close> reported for a track: it is absent
  exactly when the student has no result row for the track, and otherwise it carries the
  level and percentage of a row of that student and track that no other such row
  is more recent than.
\<close>

definition is_latest_level :: "db \<Rightarrow> oid \<Rightarrow> string \<Rightarrow> TrackLevel option \<Rightarrow> bool" where
  "is_latest_level store sid track res =
     (case res of
        None \<Rightarrow> \<not> (\<exists>r \<in> set (test_results store). r_student_id r = sid \<and> r_track r = track)
      | Some t \<Rightarrow>
          (\<exists>r \<in> set (test_results store).
             r_student_id r = sid \<and> r_track r = track \<and> t = track_level_of r \<and>
             (\<forall>r' \<in> set (test_results store).
                r_student_id r' = sid \<and> r_track r' = track \<longrightarrow>
                r_submitted_at r' \<le> r_submitted_at r)))"

text \<open>The difficulty tier that the specification assigns to a reported entry: its level,
  and \<open>Beginner\<close> when there is none.\<close>

definition level_or_default :: "TrackLevel option \<Rightarrow> string" where
  "level_or_default res =
     (case res of
        None \<Rightarrow> ''Beginner''
      | Some t \<Rightarrow> (case tl_level t of None \<Rightarrow> ''Beginner'' | Some l \<Rightarrow> l))"

text \<open>What a caller is shown of a question: its id, its prompt and its options.\<close>

definition public_view :: "Question \<Rightarrow> json" where
  "public_view q =
     JObj [(''id'', JStr (q_id q)), (''question'', JStr (q_question q)),
           (''options'', JArr (map JStr (q_options q)))]"

subsection \<open>Sample data for the concrete instances\<close>

definition demo_env :: env where
  "demo_env =
     \<lparr>JWT_SECRET = ''change_this_secret'', JWT_ALGORITHM = ''HS256'',
      EmailStr_ok = (\<lambda>s. CHR ''@'' \<in> set s)\<rparr>"

definition demo_oid :: oid where
  "demo_oid = ''0123456789abcdef01234567''"

definition other_oid :: oid where
  "other_oid = ''aaaaaaaaaaaaaaaaaaaaaaaa''"

definition demo_student :: Student where
  "demo_student =
     \<lparr>s_oid = demo_oid, s_name = ''A'', s_email = ''a@x.com'', s_password_hash = ''$2b$hash'',
      s_branch = ''CSE'', s_semester = ''5'', s_created_at = 1\<rparr>"

definition demo_current :: CurrentStudent where
  "demo_current = \<lparr>cs_doc = demo_student, cs_id = demo_oid\<rparr>"

definition demo_result :: "oid \<Rightarrow> string \<Rightarrow> int \<Rightarrow> string \<Rightarrow> timestamp \<Rightarrow> TestResult" where
  "demo_result sid track score lv t =
     \<lparr>r_student_id = sid, r_track = track, r_score = score, r_total = 10,
      r_percentage = real_of_int score / 10 * 100, r_level = lv, r_submitted_at = t\<rparr>"

definition demo_store :: db where
  "demo_store =
     \<lparr>students = [demo_student],
      test_results =
        [demo_result demo_oid ''webdev'' 3 ''Beginner'' 10,
         demo_result other_oid ''ml'' 9 ''Advanced'' 15,
         demo_result demo_oid ''webdev'' 6 ''Intermediate'' 30,
         demo_result demo_oid ''webdev'' 8 ''Advanced'' 20]\<rparr>"

definition demo_token :: token where
  "demo_token =
     JWT ''change_this_secret'' ''HS256'' (Some 1000) (Some (JStr demo_oid)) (Some (JStr ''a@x.com''))"

definition demo_answers :: TestSubmitRequest where
  "demo_answers =
     \<lparr>answers =
        [\<lparr>questionId = ''w1'', optionIndex = 1\<rparr>,
         \<lparr>questionId = ''w2'', optionIndex = 1\<rparr>,
         \<lparr>questionId = ''w3'', optionIndex = 0\<rparr>,
         \<lparr>questionId = ''zz'', optionIndex = 1\<rparr>,
         \<lparr>questionId = ''w10'', optionIndex = 0\<rparr>]\<rparr>"

definition demo_registration :: StudentRegister where
  "demo_registration =
     \<lparr>reg_name = ''A'', reg_email = ''a@x.com'', reg_password = ''p'', reg_branch = ''CSE'',
      reg_semester = ''5''\<rparr>"

section \<open>Properties\<close>

subsection \<open>Scoring and level bucketing\<close>

lemma length_questions_for: "length (questions_for track) = 10"
  by (simp add: questions_for_def WEBDEV_QUESTIONS_FULL_def ML_QUESTIONS_FULL_def)

lemma submit_test_Inr:
  assumes "submit_test now track pl cs store = (Inr resp, store')"
  shows "track \<in> {''webdev'', ''ml''}"
    and "\<exists>sid. ObjectId (cs_id cs) = Inr sid \<and>
           store' = store\<lparr>test_results := test_results store @
             [\<lparr>r_student_id = sid, r_track = track,
               r_score = score_loop (question_map (questions_for track)) (answers pl) 0,
               r_total = 10,
               r_percentage =
                 real_of_int (score_loop (question_map (questions_for track)) (answers pl) 0)
                   / 10 * 100,
               r_level =
                 map_percentage_to_level
                   (real_of_int (score_loop (question_map (questions_for track)) (answers pl) 0)
                     / 10 * 100),
               r_submitted_at = now\<rparr>]\<rparr>"
    and "tr_score resp = score_loop (question_map (questions_for track)) (answers pl) 0"
    and "tr_total resp = 10"
    and "tr_level resp = map_percentage_to_level (real_of_int (tr_score resp) / 10 * 100)"
    and "tr_percentage resp = round2 (real_of_int (tr_score resp) / 10 * 100)"
    and "tr_track resp = track"
  using assms
  by (auto simp: submit_test_def Let_def length_questions_for split: if_splits sum.splits)

lemma round2_of_int: "round2 (real_of_int n) = real_of_int n"
proof -
  have e: "real_of_int n * 100 = real_of_int (n * 100)"
    by simp
  have f: "\<lfloor>real_of_int n * 100\<rfloor> = n * 100"
    unfolding e by (rule floor_of_int)
  show ?thesis
    unfolding round2_def Let_def f by simp
qed

lemma ObjectId_demo_oid: "ObjectId demo_oid = Inr demo_oid"
  by (simp add: ObjectId_def demo_oid_def is_hex_def lower_hex_def)

lemma question_map_webdev_eval:
  "question_map WEBDEV_QUESTIONS_FULL ''w1'' = Some (WEBDEV_QUESTIONS_FULL ! 0)"
  "question_map WEBDEV_QUESTIONS_FULL ''w2'' = Some (WEBDEV_QUESTIONS_FULL ! 1)"
  "question_map WEBDEV_QUESTIONS_FULL ''w3'' = Some (WEBDEV_QUESTIONS_FULL ! 2)"
  "question_map WEBDEV_QUESTIONS_FULL ''w10'' = Some (WEBDEV_QUESTIONS_FULL ! 9)"
  "question_map WEBDEV_QUESTIONS_FULL ''zz'' = None"
  by (simp_all add: question_map_def WEBDEV_QUESTIONS_FULL_def)

lemma demo_submission:
  "submit_test t ''webdev'' demo_answers demo_current store =
     (Inr \<lparr>tr_track = ''webdev'', tr_score = 3, tr_total = 10, tr_percentage = 30,
           tr_level = ''Beginner'',
           tr_message =
             ''You are at Beginner level. Focus on the basics and build strong foundations.''\<rparr>,
      store\<lparr>test_results := test_results store @
        [demo_result demo_oid ''webdev'' 3 ''Beginner'' t]\<rparr>)"
proof -
  have s: "score_loop (question_map WEBDEV_QUESTIONS_FULL) (answers demo_answers) 0 = 3"
    by (simp add: demo_answers_def question_map_webdev_eval)
       (simp add: WEBDEV_QUESTIONS_FULL_def)
  have r: "round2 30 = 30"
    using round2_of_int [of 30] by simp
  show ?thesis
    by (simp add: submit_test_def Let_def questions_for_def s r ObjectId_demo_oid
          demo_current_def demo_result_def map_percentage_to_level_def level_message_def)
       (simp add: WEBDEV_QUESTIONS_FULL_def r)
qed

lemma score_loop_acc: "score_loop qm as s = s + score_loop qm as 0"
proof (induction as arbitrary: s)
  case Nil
  show ?case by simp
next
  case (Cons a as)
  have "score_loop qm as (s + 1) = s + 1 + score_loop qm as 0"
    by (rule Cons.IH)
  moreover have "score_loop qm as 1 = 1 + score_loop qm as 0"
    by (rule Cons.IH)
  moreover have "score_loop qm as s = s + score_loop qm as 0"
    by (rule Cons.IH)
  ultimately show ?case
    by (simp split: option.splits)
qed

lemma score_loop_count:
  "score_loop qm as 0 = int (length (filter (answer_correct qm) as))"
proof (induction as)
  case Nil
  show ?case by simp
next
  case (Cons a as)
  show ?case
    using Cons.IH score_loop_acc [of qm as 1]
    by (simp add: answer_correct_def split: option.splits)
qed

lemma find_app:
  "find P (xs @ ys) = (case find P xs of None \<Rightarrow> find P ys | Some x \<Rightarrow> Some x)"
  by (induction xs) simp_all

lemma question_map_fold:
  "fold (\<lambda>q m. m(q_id q \<mapsto> q)) qs m k =
     (case find (\<lambda>q. q_id q = k) (rev qs) of None \<Rightarrow> m k | Some q \<Rightarrow> Some q)"
  by (induction qs arbitrary: m) (auto simp: find_app split: option.splits)

lemma question_map_find:
  "question_map qs k = find (\<lambda>q. q_id q = k) (rev qs)"
  by (simp add: question_map_def question_map_fold split: option.splits)

lemma find_distinct_key:
  assumes "distinct (map f xs)"
  shows "find (\<lambda>x. f x = k) xs = Some y \<longleftrightarrow> y \<in> set xs \<and> f y = k"
  using assms
proof (induction xs)
  case Nil
  show ?case by simp
next
  case (Cons x xs)
  have d: "distinct (map f xs)" and n: "f x \<notin> f ` set xs"
    using Cons.prems by simp_all
  show ?case
  proof (cases "f x = k")
    case True
    have "y \<notin> set xs" if "f y = k"
      using that True n by (metis imageI)
    with True show ?thesis
      by (cases "y = x") auto
  next
    case False
    then show ?thesis
      using Cons.IH [OF d] by (cases "y = x") simp_all
  qed
qed

lemma answer_correct_iff:
  assumes "distinct (map q_id qs)"
  shows "answer_correct (question_map qs) a =
         list_ex (\<lambda>q. q_id q = questionId a \<and> q_correctIndex q = optionIndex a) qs"
proof -
  have d: "distinct (map q_id (rev qs))"
    using assms by (simp add: rev_map [symmetric])
  have ex: "list_ex (\<lambda>q. q_id q = questionId a \<and> q_correctIndex q = optionIndex a) qs =
            (\<exists>q. q \<in> set qs \<and> q_id q = questionId a \<and> q_correctIndex q = optionIndex a)"
    unfolding list_ex_iff by blast
  show ?thesis
  proof (cases "find (\<lambda>q. q_id q = questionId a) (rev qs)")
    case None
    have no: "\<not> (\<exists>q. q \<in> set qs \<and> q_id q = questionId a)"
      using None unfolding find_None_iff by simp
    have l: "answer_correct (question_map qs) a = False"
      unfolding answer_correct_def question_map_find None by simp
    show ?thesis
      unfolding l ex using no by blast
  next
    case (Some q)
    have q: "q \<in> set qs \<and> q_id q = questionId a"
      using Some find_distinct_key [OF d, of "questionId a" q] by simp
    have u: "q' = q" if "q' \<in> set qs" "q_id q' = questionId a" for q'
    proof -
      have "find (\<lambda>q. q_id q = questionId a) (rev qs) = Some q'"
        using that find_distinct_key [OF d, of "questionId a" q'] by simp
      with Some show ?thesis by simp
    qed
    have l: "answer_correct (question_map qs) a = (optionIndex a = q_correctIndex q)"
      unfolding answer_correct_def question_map_find Some by simp
    show ?thesis
      unfolding l ex using q u by metis
  qed
qed

lemma distinct_question_ids: "distinct (map q_id (questions_for track))"
  by (simp add: questions_for_def WEBDEV_QUESTIONS_FULL_def ML_QUESTIONS_FULL_def)

lemma score_eq_correct_matches:
  "score_loop (question_map (questions_for track)) as 0 =
     int (correct_matches (questions_for track) as)"
proof -
  have "answer_correct (question_map (questions_for track)) =
        (\<lambda>a. list_ex (\<lambda>q. q_id q = questionId a \<and> q_correctIndex q = optionIndex a)
                (questions_for track))"
    using answer_correct_iff [OF distinct_question_ids] by blast
  then show ?thesis
    by (simp add: score_loop_count correct_matches_def)
qed

lemma correct_matches_mset:
  assumes "mset as = mset bs"
  shows "correct_matches qs as = correct_matches qs bs"
proof -
  let ?P = "\<lambda>a. list_ex (\<lambda>q. q_id q = questionId a \<and> q_correctIndex q = optionIndex a) qs"
  have "mset (filter ?P as) = mset (filter ?P bs)"
    unfolding mset_filter assms ..
  then have "length (filter ?P as) = length (filter ?P bs)"
    by (rule mset_eq_length)
  then show ?thesis
    unfolding correct_matches_def .
qed

text \<open>
  Claim C3. The level is a function of the percentage alone: at most 40 is Beginner,
  above 40 and at most 75 is Intermediate, above 75 is Advanced; so 40.0 is Beginner,
  40.01 Intermediate, 75.0 Intermediate and 75.01 Advanced. A submission is graded by
  this function at the exact percentage \<open>score / 10 * 100\<close>, the total being 10 on
  both tracks.
\<close>

theorem level_bucketing:
  "(p \<le> 40 \<longrightarrow> map_percentage_to_level p = ''Beginner'') \<and>
   (40 < p \<and> p \<le> 75 \<longrightarrow> map_percentage_to_level p = ''Intermediate'') \<and>
   (75 < p \<longrightarrow> map_percentage_to_level p = ''Advanced'') \<and>
   map_percentage_to_level 40.0 = ''Beginner'' \<and>
   map_percentage_to_level 40.01 = ''Intermediate'' \<and>
   map_percentage_to_level 75.0 = ''Intermediate'' \<and>
   map_percentage_to_level 75.01 = ''Advanced'' \<and>
   (submit_test now track pl cs store = (Inr resp, store') \<longrightarrow>
      tr_total resp = 10 \<and>
      tr_level resp = map_percentage_to_level (real_of_int (tr_score resp) / 10 * 100) \<and>
      (\<exists>row. test_results store' = test_results store @ [row] \<and>
         r_total row = 10 \<and>
         r_percentage row = real_of_int (r_score row) / real_of_int (r_total row) * 100 \<and>
         r_level row = map_percentage_to_level (r_percentage row)))"
proof -
  have "tr_total resp = 10 \<and>
      tr_level resp = map_percentage_to_level (real_of_int (tr_score resp) / 10 * 100) \<and>
      (\<exists>row. test_results store' = test_results store @ [row] \<and>
         r_total row = 10 \<and>
         r_percentage row = real_of_int (r_score row) / real_of_int (r_total row) * 100 \<and>
         r_level row = map_percentage_to_level (r_percentage row))"
    if h: "submit_test now track pl cs store = (Inr resp, store')"
    using submit_test_Inr(2)[OF h] submit_test_Inr(4)[OF h] submit_test_Inr(5)[OF h]
    by auto
  then show ?thesis
    by (simp add: map_percentage_to_level_def)
qed

theorem level_bucketing_witness:
  "map_percentage_to_level 30 = ''Beginner'' \<and>
   map_percentage_to_level 60 = ''Intermediate'' \<and>
   map_percentage_to_level 80 = ''Advanced'' \<and>
   (\<exists>resp store'.
      submit_test 40 ''webdev'' demo_answers demo_current demo_store = (Inr resp, store') \<and>
      tr_score resp = 3 \<and> tr_total resp = 10 \<and>
      tr_level resp = map_percentage_to_level 30)"
proof -
  have a: "map_percentage_to_level 30 = ''Beginner''"
    using level_bucketing [of 30] by simp
  have b: "map_percentage_to_level 60 = ''Intermediate''"
    using level_bucketing [of 60] by simp
  have c: "map_percentage_to_level 80 = ''Advanced''"
    using level_bucketing [of 80] by simp
  have d: "tr_level resp = map_percentage_to_level (real_of_int (tr_score resp) / 10 * 100)"
    if "submit_test 40 ''webdev'' demo_answers demo_current demo_store = (Inr resp, store')"
    for resp store'
    using that level_bucketing [of 30 40 "''webdev''" demo_answers demo_current demo_store resp store']
    by blast
  show ?thesis
    using a b c d [OF demo_submission [of 40 demo_store]] by (simp add: demo_submission)
qed

lemma correct_matches_distinct_le:
  assumes "distinct (map questionId as)"
  shows "correct_matches qs as \<le> length qs"
proof -
  let ?P = "\<lambda>a. list_ex (\<lambda>q. q_id q = questionId a \<and> q_correctIndex q = optionIndex a) qs"
  let ?F = "filter ?P as"
  have d: "distinct (map questionId ?F)"
    using assms by (rule distinct_map_filter)
  have sub: "set (map questionId ?F) \<subseteq> set (map q_id qs)"
  proof
    fix k
    assume "k \<in> set (map questionId ?F)"
    then obtain a where a: "a \<in> set as" "?P a" "k = questionId a"
      by auto
    from a(2) obtain q where "q \<in> set qs" "q_id q = questionId a"
      unfolding list_ex_iff by blast
    with a(3) show "k \<in> set (map q_id qs)"
      by (metis image_eqI set_map)
  qed
  have "length ?F = length (map questionId ?F)"
    by simp
  also have "\<dots> = card (set (map questionId ?F))"
    using d by (simp only: distinct_card)
  also have "\<dots> \<le> card (set (map q_id qs))"
    using sub by (rule card_mono [OF finite_set])
  also have "\<dots> \<le> length (map q_id qs)"
    by (rule card_length)
  finally show ?thesis
    by (simp add: correct_matches_def)
qed

lemma submit_test_distinct_score_le_total:
  assumes "submit_test now track pl cs store = (Inr resp, store')"
      and "distinct (map questionId (answers pl))"
  shows "0 \<le> tr_score resp \<and> tr_score resp \<le> tr_total resp"
  using submit_test_Inr(3) [OF assms(1)] submit_test_Inr(4) [OF assms(1)]
        correct_matches_distinct_le [OF assms(2), of "questions_for track"]
  by (simp add: score_eq_correct_matches length_questions_for)

text \<open>
  Claim C2. The score of a submission is an integer between 0 and the total, 10, also
  when answers repeat a question id, and the stored percentage is \<open>score / total * 100\<close>.
  The loop counts every submitted answer that matches, so the bound holds for answers
  with distinct question ids (\<open>submit_test_distinct_score_le_total\<close>) and fails when a
  correct answer is repeated: eleven copies of the right answer to \<open>w1\<close> score 11 out
  of 10, stored and returned with percentage 110.
\<close>

theorem repeated_answer_score_exceeds_total:
  "submit_test 40 ''webdev''
      \<lparr>answers = replicate 11 \<lparr>questionId = ''w1'', optionIndex = 1\<rparr>\<rparr> demo_current demo_store =
     (Inr \<lparr>tr_track = ''webdev'', tr_score = 11, tr_total = 10, tr_percentage = 110,
           tr_level = ''Advanced'',
           tr_message =
             ''Great job! You are at Advanced level. Explore deeper topics and real-world applications.''\<rparr>,
      demo_store\<lparr>test_results := test_results demo_store @
        [demo_result demo_oid ''webdev'' 11 ''Advanced'' 40]\<rparr>)"
proof -
  have e: "replicate 11 x = [x, x, x, x, x, x, x, x, x, x, x]" for x :: AnswerSubmission
    by (simp add: eval_nat_numeral)
  have s: "score_loop (question_map WEBDEV_QUESTIONS_FULL)
             (replicate 11 \<lparr>questionId = ''w1'', optionIndex = 1\<rparr>) 0 = 11"
    unfolding e
    by (simp add: question_map_webdev_eval) (simp add: WEBDEV_QUESTIONS_FULL_def)
  have r: "round2 110 = 110"
    using round2_of_int [of 110] by simp
  show ?thesis
    by (simp add: submit_test_def Let_def questions_for_def s r ObjectId_demo_oid
          demo_current_def demo_result_def map_percentage_to_level_def level_message_def)
       (simp add: WEBDEV_QUESTIONS_FULL_def r)
qed

text \<open>
  Claim C6. The score of a submission is the number of correct matches among its
  answers, so it is monotonic in that number and the same for every reordering of the
  answers. Each accepted submission appends one row to \<open>test_results\<close>: after two
  submissions, also of the same answers, the collection is the old one followed by two
  new rows, and the students are untouched.
\<close>

theorem score_order_independent_rows_appended:
  assumes "submit_test now track pl cs store = (Inr resp, store')"
      and "submit_test now' track pl' cs store' = (Inr resp', store'')"
  shows "tr_score resp = int (correct_matches (questions_for track) (answers pl)) \<and>
         (correct_matches (questions_for track) (answers pl)
            \<le> correct_matches (questions_for track) (answers pl')
          \<longrightarrow> tr_score resp \<le> tr_score resp') \<and>
         (mset (answers pl) = mset (answers pl') \<longrightarrow> tr_score resp = tr_score resp') \<and>
         students store'' = students store \<and>
         (\<exists>row row'.
            test_results store' = test_results store @ [row] \<and>
            test_results store'' = test_results store @ [row, row'] \<and>
            r_score row = tr_score resp \<and> r_score row' = tr_score resp' \<and>
            r_submitted_at row = now \<and> r_submitted_at row' = now')"
proof -
  have s: "tr_score resp = int (correct_matches (questions_for track) (answers pl))"
    using submit_test_Inr(3) [OF assms(1)] by (simp add: score_eq_correct_matches)
  have s': "tr_score resp' = int (correct_matches (questions_for track) (answers pl'))"
    using submit_test_Inr(3) [OF assms(2)] by (simp add: score_eq_correct_matches)
  have m: "tr_score resp = tr_score resp'" if "mset (answers pl) = mset (answers pl')"
    using correct_matches_mset [OF that, of "questions_for track"] s s' by simp
  obtain sid where st: "store' = store\<lparr>test_results := test_results store @
             [\<lparr>r_student_id = sid, r_track = track,
               r_score = score_loop (question_map (questions_for track)) (answers pl) 0,
               r_total = 10,
               r_percentage =
                 real_of_int (score_loop (question_map (questions_for track)) (answers pl) 0)
                   / 10 * 100,
               r_level =
                 map_percentage_to_level
                   (real_of_int (score_loop (question_map (questions_for track)) (answers pl) 0)
                     / 10 * 100),
               r_submitted_at = now\<rparr>]\<rparr>"
    using submit_test_Inr(2) [OF assms(1)] by blast
  obtain sid' where st': "store'' = store'\<lparr>test_results := test_results store' @
             [\<lparr>r_student_id = sid', r_track = track,
               r_score = score_loop (question_map (questions_for track)) (answers pl') 0,
               r_total = 10,
               r_percentage =
                 real_of_int (score_loop (question_map (questions_for track)) (answers pl') 0)
                   / 10 * 100,
               r_level =
                 map_percentage_to_level
                   (real_of_int (score_loop (question_map (questions_for track)) (answers pl') 0)
                     / 10 * 100),
               r_submitted_at = now'\<rparr>]\<rparr>"
    using submit_test_Inr(2) [OF assms(2)] by blast
  have rows: "\<exists>row row'.
            test_results store' = test_results store @ [row] \<and>
            test_results store'' = test_results store @ [row, row'] \<and>
            r_score row = tr_score resp \<and> r_score row' = tr_score resp' \<and>
            r_submitted_at row = now \<and> r_submitted_at row' = now'"
    unfolding st' st
    using submit_test_Inr(3) [OF assms(1)] submit_test_Inr(3) [OF assms(2)]
    by simp
  have stu: "students store'' = students store"
    unfolding st' st by simp
  show ?thesis
    using s s' m rows stu by simp
qed

theorem score_order_independent_rows_appended_witness:
  "\<exists>resp store' resp' store''.
     submit_test 40 ''webdev'' demo_answers demo_current demo_store = (Inr resp, store') \<and>
     submit_test 41 ''webdev'' demo_answers demo_current store' = (Inr resp', store'') \<and>
     tr_score resp = 3 \<and> tr_score resp' = 3 \<and>
     length (test_results store'') = length (test_results demo_store) + 2 \<and>
     take (length (test_results demo_store)) (test_results store'') = test_results demo_store"
proof -
  let ?r = "\<lparr>tr_track = ''webdev'', tr_score = 3, tr_total = 10, tr_percentage = 30,
           tr_level = ''Beginner'',
           tr_message =
             ''You are at Beginner level. Focus on the basics and build strong foundations.''\<rparr>"
  let ?s1 = "demo_store\<lparr>test_results := test_results demo_store @
        [demo_result demo_oid ''webdev'' 3 ''Beginner'' 40]\<rparr>"
  let ?s2 = "?s1\<lparr>test_results := test_results ?s1 @
        [demo_result demo_oid ''webdev'' 3 ''Beginner'' 41]\<rparr>"
  have a: "submit_test 40 ''webdev'' demo_answers demo_current demo_store = (Inr ?r, ?s1)"
    by (rule demo_submission)
  have b: "submit_test 41 ''webdev'' demo_answers demo_current ?s1 = (Inr ?r, ?s2)"
    by (rule demo_submission)
  obtain row row' where
    rows: "test_results ?s2 = test_results demo_store @ [row, row']"
    using score_order_independent_rows_appended [OF a b] by blast
  have l: "length (test_results ?s2) = length (test_results demo_store) + 2"
    unfolding rows by simp
  have p: "take (length (test_results demo_store)) (test_results ?s2) = test_results demo_store"
    unfolding rows by simp
  show ?thesis
    using a b l p by (intro exI [of _ ?r] exI [of _ ?s1] exI [of _ ?s2]) simp
qed

subsection \<open>Current levels\<close>

lemma levels_step_alt:
  "levels_step doc levels =
     (case levels (r_track doc) of
        Some _ \<Rightarrow> levels
      | None \<Rightarrow> levels(r_track doc \<mapsto> track_level_of doc))"
  by (simp add: levels_step_def track_level_of_def split: option.splits)

lemma levels_fold:
  "fold levels_step rows m t =
     (case m t of
        Some v \<Rightarrow> Some v
      | None \<Rightarrow> map_option track_level_of (find (\<lambda>r. r_track r = t) rows))"
proof (induction rows arbitrary: m)
  case Nil
  show ?case by (simp split: option.splits)
next
  case (Cons r rows)
  show ?case
    unfolding fold_simps(2) Cons.IH
    by (simp add: levels_step_alt split: option.splits)
qed

lemma get_latest_levels_find:
  "lr_webdev (get_latest_levels_for_student store sid) =
     map_option track_level_of (find (\<lambda>r. r_track r = ''webdev'') (find_results_sorted store sid))"
  "lr_ml (get_latest_levels_for_student store sid) =
     map_option track_level_of (find (\<lambda>r. r_track r = ''ml'') (find_results_sorted store sid))"
  by (simp_all add: get_latest_levels_for_student_def Let_def levels_fold)

lemma find_first_is_max:
  assumes "sorted_wrt (\<lambda>a b. key b \<le> key a) xs" and "find P xs = Some r"
  shows "r \<in> set xs \<and> P r \<and> (\<forall>r' \<in> set xs. P r' \<longrightarrow> key r' \<le> (key r :: int))"
  using assms
proof (induction xs)
  case Nil
  then show ?case by simp
next
  case (Cons x xs)
  show ?case
  proof (cases "P x")
    case True
    then have "r = x" using Cons.prems(2) by simp
    then show ?thesis using True Cons.prems(1) by auto
  next
    case False
    then have f: "find P xs = Some r" using Cons.prems(2) by simp
    have s: "sorted_wrt (\<lambda>a b. key b \<le> key a) xs" using Cons.prems(1) by simp
    show ?thesis using Cons.IH [OF s f] False by auto
  qed
qed

lemma set_find_results_sorted:
  "set (find_results_sorted store sid) = {r \<in> set (test_results store). r_student_id r = sid}"
  by (auto simp: find_results_sorted_def)

lemma sorted_find_results_sorted:
  "sorted_wrt (\<lambda>a b. r_submitted_at b \<le> r_submitted_at a) (find_results_sorted store sid)"
proof -
  let ?xs = "sort_key r_submitted_at
               (filter (\<lambda>doc. r_student_id doc = sid) (test_results store))"
  have "sorted (map r_submitted_at ?xs)"
    by (rule sorted_sort_key)
  then have "sorted_wrt (\<lambda>a b. r_submitted_at a \<le> r_submitted_at b) ?xs"
    by (simp add: sorted_map)
  then show ?thesis
    unfolding find_results_sorted_def sorted_wrt_rev .
qed

lemma first_in_cursor_is_latest:
  "is_latest_level store sid track
     (map_option track_level_of (find (\<lambda>r. r_track r = track) (find_results_sorted store sid)))"
proof (cases "find (\<lambda>r. r_track r = track) (find_results_sorted store sid)")
  case None
  then have "\<not> (\<exists>r. r \<in> set (find_results_sorted store sid) \<and> r_track r = track)"
    unfolding find_None_iff .
  then show ?thesis
    unfolding is_latest_level_def None set_find_results_sorted by auto
next
  case (Some r)
  have m: "r \<in> set (find_results_sorted store sid) \<and> r_track r = track \<and>
        (\<forall>r' \<in> set (find_results_sorted store sid).
           r_track r' = track \<longrightarrow> r_submitted_at r' \<le> r_submitted_at r)"
    using find_first_is_max [OF sorted_find_results_sorted Some] .
  show ?thesis
    unfolding is_latest_level_def Some
    using m unfolding set_find_results_sorted
    by auto
qed

text \<open>
  Claim C4. For every store and student, the level aggregator reports for each of the
  two tracks the level and percentage of the first row of that track in the student's
  results ordered most recent first, which is a row of that student and track with the
  latest submission time; a track without any row of the student is absent.
\<close>

theorem current_levels_latest:
  "is_latest_level store sid ''webdev'' (lr_webdev (get_latest_levels_for_student store sid)) \<and>
   is_latest_level store sid ''ml'' (lr_ml (get_latest_levels_for_student store sid)) \<and>
   lr_webdev (get_latest_levels_for_student store sid) =
     map_option track_level_of
       (find (\<lambda>r. r_track r = ''webdev'') (find_results_sorted store sid)) \<and>
   lr_ml (get_latest_levels_for_student store sid) =
     map_option track_level_of
       (find (\<lambda>r. r_track r = ''ml'') (find_results_sorted store sid))"
  unfolding get_latest_levels_find
  using first_in_cursor_is_latest [of store sid "''webdev''"]
        first_in_cursor_is_latest [of store sid "''ml''"]
  by simp

lemma demo_cursor:
  "find_results_sorted demo_store demo_oid =
     [demo_result demo_oid ''webdev'' 6 ''Intermediate'' 30,
      demo_result demo_oid ''webdev'' 8 ''Advanced'' 20,
      demo_result demo_oid ''webdev'' 3 ''Beginner'' 10]"
  by (simp add: find_results_sorted_def demo_store_def demo_result_def demo_oid_def other_oid_def)

lemma demo_levels:
  "get_latest_levels_for_student demo_store demo_oid =
     \<lparr>lr_webdev = Some \<lparr>tl_level = Some ''Intermediate'', tl_percentage = Some 60\<rparr>,
      lr_ml = None\<rparr>"
  by (simp add: get_latest_levels_for_student_def Let_def demo_cursor levels_step_def demo_result_def)

theorem current_levels_latest_witness:
  "lr_webdev (get_latest_levels_for_student demo_store demo_oid) =
     Some \<lparr>tl_level = Some ''Intermediate'', tl_percentage = Some 60\<rparr> \<and>
   lr_ml (get_latest_levels_for_student demo_store demo_oid) = None \<and>
   is_latest_level demo_store demo_oid ''webdev''
     (Some \<lparr>tl_level = Some ''Intermediate'', tl_percentage = Some 60\<rparr>) \<and>
   is_latest_level demo_store demo_oid ''ml'' None"
proof -
  have a: "is_latest_level demo_store demo_oid ''webdev''
             (lr_webdev (get_latest_levels_for_student demo_store demo_oid))"
    using current_levels_latest [of demo_store demo_oid] by blast
  have b: "is_latest_level demo_store demo_oid ''ml''
             (lr_ml (get_latest_levels_for_student demo_store demo_oid))"
    using current_levels_latest [of demo_store demo_oid] by blast
  show ?thesis
    using a b unfolding demo_levels by simp
qed

subsection \<open>Authentication\<close>

lemma lower_hex_idem: "lower_hex (lower_hex c) = lower_hex c"
  by (simp add: lower_hex_def)

lemma is_hex_lower_hex: "is_hex c \<Longrightarrow> is_hex (lower_hex c)"
  unfolding is_hex_def lower_hex_def by auto

lemma ObjectId_canonical:
  assumes "ObjectId s = Inr x"
  shows "ObjectId (str_oid x) = Inr x"
proof -
  have l: "length s = 24" and h: "list_all is_hex s" and x: "x = map lower_hex s"
    using assms by (auto simp: ObjectId_def split: if_splits)
  have "list_all is_hex x"
    using h unfolding x list_all_iff by (auto intro: is_hex_lower_hex)
  moreover have "map lower_hex x = x"
    unfolding x by (simp add: lower_hex_idem)
  moreover have "length x = 24"
    unfolding x using l by simp
  ultimately show ?thesis
    by (simp add: ObjectId_def str_oid_def)
qed

lemma find_Some_member: "find P xs = Some x \<Longrightarrow> x \<in> set xs \<and> P x"
  by (induction xs) (auto split: if_splits)

lemma get_student_by_id_Some:
  assumes "get_student_by_id store sub = Some student"
  shows "student \<in> set (students store) \<and> ObjectId sub = Inr (s_oid student)"
proof -
  obtain x where x: "ObjectId sub = Inr x"
    and f: "find (\<lambda>s. s_oid s = x) (students store) = Some student"
    using assms by (auto simp: get_student_by_id_def split: sum.splits)
  from find_Some_member [OF f] x show ?thesis by simp
qed

lemma get_current_student_Inr:
  assumes "get_current_student e store now tok = Inr cs"
  shows "cs_doc cs \<in> set (students store)"
    and "cs_id cs = str_oid (s_oid (cs_doc cs))"
    and "ObjectId (cs_id cs) = Inr (s_oid (cs_doc cs))"
proof -
  obtain sub student where g: "get_student_by_id store sub = Some student"
    and c: "cs = \<lparr>cs_doc = student, cs_id = str_oid (s_oid student)\<rparr>"
    using assms
    by (auto simp: get_current_student_def split: sum.splits option.splits)
  from get_student_by_id_Some [OF g]
  have m: "student \<in> set (students store)" and o: "ObjectId sub = Inr (s_oid student)"
    by simp_all
  show "cs_doc cs \<in> set (students store)" using m c by simp
  show "cs_id cs = str_oid (s_oid (cs_doc cs))" using c by simp
  show "ObjectId (cs_id cs) = Inr (s_oid (cs_doc cs))"
    using ObjectId_canonical [OF o] c by simp
qed

lemma demo_authenticated:
  "get_current_student demo_env demo_store 500 demo_token = Inr demo_current"
  by (simp add: get_current_student_def demo_env_def demo_token_def TokenData_def
        get_student_by_id_def ObjectId_demo_oid demo_store_def demo_student_def
        demo_current_def str_oid_def)

subsection \<open>Token validation and routing\<close>

text \<open>
  Claim C7. A token signed with another secret, a token whose expiry is in the past and
  a token without the \<open>sub\<close> or the \<open>email\<close> claim are all answered with the same
  exception: status 401, the fixed detail text and the \<open>WWW-Authenticate: Bearer\<close>
  challenge header. So is a string that is not a token at all.
\<close>

theorem invalid_tokens_unauthenticated:
  "(k \<noteq> JWT_SECRET e \<longrightarrow>
      get_current_student e store now (JWT k a x sub email) = Inl credentials_exception) \<and>
   (x = Some t \<and> t < now \<longrightarrow>
      get_current_student e store now (JWT k a x sub email) = Inl credentials_exception) \<and>
   (sub = None \<or> email = None \<longrightarrow>
      get_current_student e store now (JWT k a x sub email) = Inl credentials_exception) \<and>
   get_current_student e store now Malformed = Inl credentials_exception \<and>
   credentials_exception =
     HTTPException 401 ''Could not validate credentials'' [(''WWW-Authenticate'', ''Bearer'')]"
proof -
  have 1: "get_current_student e store now (JWT k a x sub email) = Inl credentials_exception"
    if "k \<noteq> JWT_SECRET e"
    using that by (simp add: get_current_student_def)
  have 2: "get_current_student e store now (JWT k a x sub email) = Inl credentials_exception"
    if "x = Some t \<and> t < now"
    using that by (simp add: get_current_student_def)
  have 3: "get_current_student e store now (JWT k a x sub email) = Inl credentials_exception"
    if "sub = None \<or> email = None"
    using that
    by (auto simp: get_current_student_def split: option.splits json.splits sum.splits)
  have 4: "get_current_student e store now Malformed = Inl credentials_exception"
    by (simp add: get_current_student_def)
  show ?thesis
    using 1 2 3 4 by (simp add: credentials_exception_def)
qed

theorem invalid_tokens_unauthenticated_witness:
  "get_current_student demo_env demo_store 500
     (JWT ''another_secret'' ''HS256'' (Some 1000) (Some (JStr demo_oid)) (Some (JStr ''a@x.com'')))
     = Inl credentials_exception \<and>
   get_current_student demo_env demo_store 500
     (JWT ''change_this_secret'' ''HS256'' (Some 499) (Some (JStr demo_oid)) (Some (JStr ''a@x.com'')))
     = Inl credentials_exception \<and>
   get_current_student demo_env demo_store 500
     (JWT ''change_this_secret'' ''HS256'' (Some 1000) None (Some (JStr ''a@x.com'')))
     = Inl credentials_exception \<and>
   get_current_student demo_env demo_store 500
     (JWT ''change_this_secret'' ''HS256'' (Some 1000) (Some (JStr demo_oid)) None)
     = Inl credentials_exception \<and>
   get_current_student demo_env demo_store 500 demo_token = Inr demo_current"
proof -
  have s: "''another_secret'' \<noteq> JWT_SECRET demo_env"
    by (simp add: demo_env_def)
  have a: "get_current_student demo_env demo_store 500
     (JWT ''another_secret'' ''HS256'' (Some 1000) (Some (JStr demo_oid)) (Some (JStr ''a@x.com'')))
     = Inl credentials_exception"
    using s invalid_tokens_unauthenticated
      [of "''another_secret''" demo_env demo_store 500 "''HS256''" "Some 1000"
          "Some (JStr demo_oid)" "Some (JStr ''a@x.com'')"]
    by blast
  have b: "get_current_student demo_env demo_store 500
     (JWT ''change_this_secret'' ''HS256'' (Some 499) (Some (JStr demo_oid)) (Some (JStr ''a@x.com'')))
     = Inl credentials_exception"
    using invalid_tokens_unauthenticated
      [of "''change_this_secret''" demo_env demo_store 500 "''HS256''" "Some 499"
          "Some (JStr demo_oid)" "Some (JStr ''a@x.com'')" 499]
    by simp
  have c: "get_current_student demo_env demo_store 500
     (JWT ''change_this_secret'' ''HS256'' (Some 1000) None (Some (JStr ''a@x.com'')))
     = Inl credentials_exception"
    using invalid_tokens_unauthenticated
      [of "''change_this_secret''" demo_env demo_store 500 "''HS256''" "Some 1000"
          None "Some (JStr ''a@x.com'')"]
    by simp
  have d: "get_current_student demo_env demo_store 500
     (JWT ''change_this_secret'' ''HS256'' (Some 1000) (Some (JStr demo_oid)) None)
     = Inl credentials_exception"
    using invalid_tokens_unauthenticated
      [of "''change_this_secret''" demo_env demo_store 500 "''HS256''" "Some 1000"
          "Some (JStr demo_oid)" None]
    by simp
  show ?thesis
    using a b c d demo_authenticated by simp
qed

lemma unknown_subject_unauthenticated:
  assumes "jwt_decode tok (JWT_SECRET e) [JWT_ALGORITHM e] now =
             Inr \<lparr>p_sub = Some sub, p_email = Some (JStr email)\<rparr>"
      and "EmailStr_ok e email"
      and "get_student_by_id store sub = None"
  shows "get_current_student e store now tok = Inl credentials_exception"
  using assms by (simp add: get_current_student_def TokenData_def)

lemma get_student_by_id_malformed:
  "ObjectId sub = Inl InvalidId \<Longrightarrow> get_student_by_id store sub = None"
  by (simp add: get_student_by_id_def)

text \<open>
  Claim C10. A correctly signed, unexpired token whose \<open>sub\<close> is not the id of a stored
  student, well-formed as an object id or not, is answered with the 401 of an invalid
  token. This holds when the \<open>email\<close> claim passes the validation of \<open>TokenData\<close>
  (\<open>unknown_subject_unauthenticated\<close>). When it does not, the \<open>ValidationError\<close> is
  raised before the student is looked up and is not caught, so the request fails with
  an internal error instead of 401.
\<close>

theorem unknown_subject_bad_email_not_401:
  "get_student_by_id demo_store other_oid = None \<and>
   get_student_by_id demo_store ''nobody'' = None \<and>
   get_current_student demo_env demo_store 500
     (JWT ''change_this_secret'' ''HS256'' (Some 1000) (Some (JStr other_oid)) (Some (JNum 42)))
     = Inl ValidationError \<and>
   get_current_student demo_env demo_store 500
     (JWT ''change_this_secret'' ''HS256'' (Some 1000) (Some (JStr ''nobody''))
        (Some (JStr ''not-an-email'')))
     = Inl ValidationError \<and>
   get_current_student demo_env demo_store 500
     (JWT ''change_this_secret'' ''HS256'' (Some 1000) (Some (JStr ''nobody''))
        (Some (JStr ''a@x.com'')))
     = Inl credentials_exception \<and>
   get_current_student demo_env demo_store 500
     (JWT ''change_this_secret'' ''HS256'' (Some 1000) (Some (JStr other_oid))
        (Some (JStr ''a@x.com'')))
     = Inl credentials_exception"
proof -
  have o: "ObjectId other_oid = Inr other_oid"
    by (simp add: ObjectId_def other_oid_def is_hex_def lower_hex_def)
  have n: "ObjectId ''nobody'' = Inl InvalidId"
    by (simp add: ObjectId_def)
  have 1: "get_student_by_id demo_store other_oid = None"
    by (simp add: get_student_by_id_def o demo_store_def demo_student_def)
       (simp add: other_oid_def demo_oid_def)
  have 2: "get_student_by_id demo_store ''nobody'' = None"
    using n by (rule get_student_by_id_malformed)
  show ?thesis
    by (simp add: 1 2 get_current_student_def demo_env_def TokenData_def)
qed

lemma serve_tests_get_levels:
  "serve_tests_get e store now tok ''levels'' =
     Some (case get_current_student e store now tok of
             Inl err \<Rightarrow> Inl err
           | Inr cs \<Rightarrow> Inl (HTTPException 404 ''Unknown track'' []))"
  by (simp add: serve_tests_get_def dispatch_def routes_def get_test_questions_def
        split: sum.splits)

text \<open>
  Claim C1. An authenticated \<open>GET tests/levels\<close> is answered with the student's current
  levels. The route \<open>/tests/{track}\<close> is declared before \<open>/tests/levels\<close> and matches
  the same path with \<open>track = levels\<close>, so the request is served by
  \<open>get_test_questions\<close>, which answers 404 for the unknown track; \<open>get_levels\<close>, which
  would return the levels, is never reached.
\<close>

theorem get_levels_route_shadowed:
  "dispatch GET [''tests'', ''levels''] = Some (Ep_get_test_questions, [(''track'', ''levels'')]) \<and>
   get_current_student demo_env demo_store 500 demo_token = Inr demo_current \<and>
   serve_tests_get demo_env demo_store 500 demo_token ''levels'' =
     Some (Inl (HTTPException 404 ''Unknown track'' [])) \<and>
   get_levels demo_current demo_store =
     Inr \<lparr>lr_webdev = Some \<lparr>tl_level = Some ''Intermediate'', tl_percentage = Some 60\<rparr>,
          lr_ml = None\<rparr>"
  by (simp add: serve_tests_get_levels demo_authenticated get_levels_def demo_current_def
        ObjectId_demo_oid demo_levels)
     (simp add: dispatch_def routes_def)

subsection \<open>Registration and question listing\<close>

lemma get_student_by_email_Some_iff:
  "(\<exists>s. get_student_by_email store email = Some s) \<longleftrightarrow>
   (\<exists>s \<in> set (students store). s_email s = email)"
proof -
  have "(get_student_by_email store email = None) \<longleftrightarrow>
        \<not> (\<exists>s. s \<in> set (students store) \<and> s_email s = email)"
    unfolding get_student_by_email_def find_None_iff ..
  then show ?thesis by auto
qed

lemma register_student_existing:
  assumes "\<exists>s \<in> set (students store). s_email s = reg_email pl"
  shows "register_student h i t pl store =
           (Inl (HTTPException 400 ''Email already registered'' []), store)"
proof -
  obtain s where "get_student_by_email store (reg_email pl) = Some s"
    using assms get_student_by_email_Some_iff [of store "reg_email pl"] by blast
  then show ?thesis
    by (simp add: register_student_def)
qed

lemma register_student_Inr:
  assumes "register_student h i t pl store = (Inr sp, store')"
  shows "\<exists>doc. students store' = students store @ [doc] \<and> s_email doc = reg_email pl \<and>
           s_oid doc = i \<and> test_results store' = test_results store"
  using assms
  by (auto simp: register_student_def Let_def split: option.splits)

text \<open>
  Claim C8. A registration whose email is already that of a stored student is rejected
  with status 400 and leaves the store as it was. In particular, after a successful
  registration, which adds one student, a second registration with the same email is
  rejected and adds none.
\<close>

theorem duplicate_email_rejected:
  "((\<exists>s \<in> set (students store). s_email s = reg_email pl) \<longrightarrow>
      register_student h i t pl store =
        (Inl (HTTPException 400 ''Email already registered'' []), store)) \<and>
   (register_student h i t pl store = (Inr sp, store') \<and> reg_email pl' = reg_email pl \<longrightarrow>
      length (students store') = length (students store) + 1 \<and>
      register_student h' i' t' pl' store' =
        (Inl (HTTPException 400 ''Email already registered'' []), store'))"
proof -
  have 2: "length (students store') = length (students store) + 1 \<and>
      register_student h' i' t' pl' store' =
        (Inl (HTTPException 400 ''Email already registered'' []), store')"
    if r: "register_student h i t pl store = (Inr sp, store')" and e: "reg_email pl' = reg_email pl"
  proof -
    obtain doc where d: "students store' = students store @ [doc]" "s_email doc = reg_email pl"
      using register_student_Inr [OF r] by blast
    have "\<exists>s \<in> set (students store'). s_email s = reg_email pl'"
      using d e by auto
    from register_student_existing [OF this] d(1) show ?thesis by simp
  qed
  show ?thesis
    using register_student_existing [of store pl h i t] 2 by blast
qed

theorem duplicate_email_rejected_witness:
  "register_student (\<lambda>p. ''$2b$'' @ p) other_oid 2 demo_registration demo_store =
     (Inl (HTTPException 400 ''Email already registered'' []), demo_store) \<and>
   (\<exists>sp store'.
      register_student (\<lambda>p. ''$2b$'' @ p) demo_oid 1 demo_registration
        \<lparr>students = [], test_results = []\<rparr> = (Inr sp, store') \<and>
      length (students store') = 1 \<and>
      register_student (\<lambda>p. ''$2b$'' @ p) other_oid 2 demo_registration store' =
        (Inl (HTTPException 400 ''Email already registered'' []), store'))"
proof -
  let ?h = "\<lambda>p. ''$2b$'' @ p"
  let ?e = "\<lparr>students = [], test_results = []\<rparr>"
  have m: "\<exists>s \<in> set (students demo_store). s_email s = reg_email demo_registration"
    by (simp add: demo_store_def demo_student_def demo_registration_def)
  have a: "register_student ?h other_oid 2 demo_registration demo_store =
     (Inl (HTTPException 400 ''Email already registered'' []), demo_store)"
    using m duplicate_email_rejected [of demo_store demo_registration ?h other_oid 2]
    by blast
  obtain sp store' where
    f: "register_student ?h demo_oid 1 demo_registration ?e = (Inr sp, store')"
    by (simp add: register_student_def get_student_by_email_def Let_def)
  have b: "length (students store') = length (students ?e) + 1 \<and>
      register_student ?h other_oid 2 demo_registration store' =
        (Inl (HTTPException 400 ''Email already registered'' []), store')"
    using f duplicate_email_rejected
      [of ?e demo_registration ?h demo_oid 1 sp store' demo_registration ?h other_oid 2]
    by blast
  show ?thesis
    using a f b by auto
qed

lemma json_keys_strings: "concat (map json_keys (map JStr xs)) = []"
  by (induction xs) simp_all

lemma json_keys_model_dump: "json_keys (model_dump qp) = [''id'', ''question'', ''options'']"
  by (simp add: model_dump_def json_keys_strings)

lemma json_keys_questions:
  "''correctIndex'' \<notin>
     set (concat (map json_keys (map (\<lambda>q. model_dump (QuestionPublic q)) qs)))"
  by (induction qs) (simp_all add: json_keys_model_dump)

lemma json_keys_response:
  "json_keys (JObj [(''track'', JStr track), (''questions'', JArr js)]) =
     ''track'' # ''questions'' # concat (map json_keys js)"
  by simp

lemma correctIndex_not_in_response:
  "''correctIndex'' \<notin> set (json_keys (JObj [(''track'', JStr track),
          (''questions'', JArr (map (\<lambda>q. model_dump (QuestionPublic q)) qs))]))"
  unfolding json_keys_response
  using json_keys_questions [of qs] by simp

lemma model_dump_public_view: "model_dump (QuestionPublic q) = public_view q"
  by (simp add: model_dump_def QuestionPublic_def public_view_def)

text \<open>
  Claim C9. On each of the two tracks the question listing returns the track's ten
  questions in their declared order, each as an object with the id, the prompt and the
  four options of the question; no key \<open>correctIndex\<close> occurs anywhere in the returned
  value.
\<close>

theorem questions_listed_without_answers:
  "get_test_questions ''webdev'' cs =
     Inr (JObj [(''track'', JStr ''webdev''),
                (''questions'', JArr (map public_view WEBDEV_QUESTIONS_FULL))]) \<and>
   get_test_questions ''ml'' cs =
     Inr (JObj [(''track'', JStr ''ml''),
                (''questions'', JArr (map public_view ML_QUESTIONS_FULL))]) \<and>
   map q_id WEBDEV_QUESTIONS_FULL =
     [''w1'', ''w2'', ''w3'', ''w4'', ''w5'', ''w6'', ''w7'', ''w8'', ''w9'', ''w10''] \<and>
   map q_id ML_QUESTIONS_FULL =
     [''m1'', ''m2'', ''m3'', ''m4'', ''m5'', ''m6'', ''m7'', ''m8'', ''m9'', ''m10''] \<and>
   list_all (\<lambda>q. length (q_options q) = 4) WEBDEV_QUESTIONS_FULL \<and>
   list_all (\<lambda>q. length (q_options q) = 4) ML_QUESTIONS_FULL \<and>
   ''correctIndex'' \<notin> set (json_keys (projr (get_test_questions ''webdev'' cs))) \<and>
   ''correctIndex'' \<notin> set (json_keys (projr (get_test_questions ''ml'' cs)))"
proof -
  have w: "get_test_questions ''webdev'' cs =
     Inr (JObj [(''track'', JStr ''webdev''),
                (''questions'', JArr (map (\<lambda>q. model_dump (QuestionPublic q)) WEBDEV_QUESTIONS_FULL))])"
    by (simp add: get_test_questions_def questions_for_def)
  have m: "get_test_questions ''ml'' cs =
     Inr (JObj [(''track'', JStr ''ml''),
                (''questions'', JArr (map (\<lambda>q. model_dump (QuestionPublic q)) ML_QUESTIONS_FULL))])"
    by (simp add: get_test_questions_def questions_for_def)
  have kw: "''correctIndex'' \<notin> set (json_keys (projr (get_test_questions ''webdev'' cs)))"
    unfolding w sum.sel by (rule correctIndex_not_in_response)
  have km: "''correctIndex'' \<notin> set (json_keys (projr (get_test_questions ''ml'' cs)))"
    unfolding m sum.sel by (rule correctIndex_not_in_response)
  have iw: "map q_id WEBDEV_QUESTIONS_FULL =
     [''w1'', ''w2'', ''w3'', ''w4'', ''w5'', ''w6'', ''w7'', ''w8'', ''w9'', ''w10'']"
    by (simp add: WEBDEV_QUESTIONS_FULL_def)
  have im: "map q_id ML_QUESTIONS_FULL =
     [''m1'', ''m2'', ''m3'', ''m4'', ''m5'', ''m6'', ''m7'', ''m8'', ''m9'', ''m10'']"
    by (simp add: ML_QUESTIONS_FULL_def)
  have ow: "list_all (\<lambda>q. length (q_options q) = 4) WEBDEV_QUESTIONS_FULL"
    by (simp add: WEBDEV_QUESTIONS_FULL_def)
  have om: "list_all (\<lambda>q. length (q_options q) = 4) ML_QUESTIONS_FULL"
    by (simp add: ML_QUESTIONS_FULL_def)
  show ?thesis
    using kw km iw im ow om
    by (simp add: w m model_dump_public_view)
qed

subsection \<open>Recommendations\<close>

lemma filter_courses_level:
  assumes "\<And>t l. res = Some t \<Longrightarrow> tl_level t = Some l \<Longrightarrow> l \<noteq> []"
  shows "filter_courses track res =
           filter (\<lambda>c. c_track c = track \<and> c_difficulty c = level_or_default res) COURSES"
proof (cases res)
  case None
  then show ?thesis
    by (simp add: filter_courses_def level_or_default_def)
next
  case (Some t)
  show ?thesis
  proof (cases "tl_level t")
    case None
    with Some show ?thesis
      by (simp add: filter_courses_def level_or_default_def)
  next
    case (Some l)
    with assms \<open>res = Some t\<close> have "l \<noteq> []" by blast
    with Some \<open>res = Some t\<close> show ?thesis
      by (simp add: filter_courses_def level_or_default_def)
  qed
qed

lemma reported_level_nonempty:
  assumes "\<forall>r \<in> set (test_results store). r_level r \<noteq> []"
      and "map_option track_level_of (find (\<lambda>r. r_track r = track) (find_results_sorted store sid))
             = Some t"
      and "tl_level t = Some l"
  shows "l \<noteq> []"
proof -
  obtain r where f: "find (\<lambda>r. r_track r = track) (find_results_sorted store sid) = Some r"
    and t: "t = track_level_of r"
    using assms(2) by auto
  have "r \<in> set (find_results_sorted store sid)"
    using find_Some_member [OF f] by simp
  then have "r \<in> set (test_results store)"
    unfolding set_find_results_sorted by simp
  then have "r_level r \<noteq> []"
    using assms(1) by blast
  then show ?thesis
    using assms(3) t by (simp add: track_level_of_def)
qed

lemma submit_test_level_nonempty:
  assumes "submit_test now track pl cs store = (Inr resp, store')"
      and "\<forall>r \<in> set (test_results store). r_level r \<noteq> []"
  shows "\<forall>r \<in> set (test_results store'). r_level r \<noteq> []"
proof -
  have n: "map_percentage_to_level p \<noteq> []" for p
    by (simp add: map_percentage_to_level_def)
  show ?thesis
    using submit_test_Inr(2) [OF assms(1)] assms(2) n by auto
qed

text \<open>
  Claim C5. For an authenticated student, the recommendations for each of the two tracks
  are the courses of the catalogue, in catalogue order, whose track is that track and
  whose difficulty is the student's current level for it, \<open>Beginner\<close> when the student
  has no result for the track. Result rows carry a non-empty level, as every row that
  \<open>submit_test\<close> writes does (\<open>submit_test_level_nonempty\<close>).
\<close>

theorem recommendations_match_current_level:
  assumes "get_current_student e store now tok = Inr cs"
      and "\<forall>r \<in> set (test_results store). r_level r \<noteq> []"
  shows "\<exists>recs.
           get_recommendations cs store = Inr recs \<and>
           rec_webdev recs =
             filter (\<lambda>c. c_track c = ''webdev'' \<and>
                          c_difficulty c =
                            level_or_default
                              (lr_webdev (get_latest_levels_for_student store (s_oid (cs_doc cs)))))
               COURSES \<and>
           rec_ml recs =
             filter (\<lambda>c. c_track c = ''ml'' \<and>
                          c_difficulty c =
                            level_or_default
                              (lr_ml (get_latest_levels_for_student store (s_oid (cs_doc cs)))))
               COURSES"
proof -
  let ?sid = "s_oid (cs_doc cs)"
  let ?lv = "get_latest_levels_for_student store ?sid"
  have o: "ObjectId (cs_id cs) = Inr ?sid"
    using get_current_student_Inr(3) [OF assms(1)] .
  have w: "filter_courses ''webdev'' (lr_webdev ?lv) =
             filter (\<lambda>c. c_track c = ''webdev'' \<and> c_difficulty c = level_or_default (lr_webdev ?lv))
               COURSES"
    by (rule filter_courses_level)
       (rule reported_level_nonempty [OF assms(2), of "''webdev''" ?sid],
        simp_all add: get_latest_levels_find)
  have m: "filter_courses ''ml'' (lr_ml ?lv) =
             filter (\<lambda>c. c_track c = ''ml'' \<and> c_difficulty c = level_or_default (lr_ml ?lv))
               COURSES"
    by (rule filter_courses_level)
       (rule reported_level_nonempty [OF assms(2), of "''ml''" ?sid],
        simp_all add: get_latest_levels_find)
  show ?thesis
    using w m by (simp add: get_recommendations_def o Let_def)
qed

theorem recommendations_match_current_level_witness:
  "\<exists>recs.
     get_recommendations demo_current demo_store = Inr recs \<and>
     map c_id (rec_webdev recs) = [''c-w-i-1'', ''c-w-i-2''] \<and>
     map c_id (rec_ml recs) = [''c-m-b-1'', ''c-m-b-2'']"
proof -
  have h: "\<forall>r \<in> set (test_results demo_store). r_level r \<noteq> []"
    by (simp add: demo_store_def demo_result_def)
  obtain recs where r: "get_recommendations demo_current demo_store = Inr recs"
    and w: "rec_webdev recs =
             filter (\<lambda>c. c_track c = ''webdev'' \<and>
                          c_difficulty c =
                            level_or_default
                              (lr_webdev (get_latest_levels_for_student demo_store
                                 (s_oid (cs_doc demo_current)))))
               COURSES"
    and m: "rec_ml recs =
             filter (\<lambda>c. c_track c = ''ml'' \<and>
                          c_difficulty c =
                            level_or_default
                              (lr_ml (get_latest_levels_for_student demo_store
                                 (s_oid (cs_doc demo_current)))))
               COURSES"
    using recommendations_match_current_level [OF demo_authenticated h] by blast
  have s: "s_oid (cs_doc demo_current) = demo_oid"
    by (simp add: demo_current_def demo_student_def)
  have w': "map c_id (rec_webdev recs) = [''c-w-i-1'', ''c-w-i-2'']"
    unfolding w s demo_levels
    by (simp add: level_or_default_def COURSES_def)
  have m': "map c_id (rec_ml recs) = [''c-m-b-1'', ''c-m-b-2'']"
    unfolding m s demo_levels
    by (simp add: level_or_default_def COURSES_def)
  show ?thesis
    by (rule exI [of _ recs]) (simp only: r w' m' simp_thms)
qed

end
